theory Spec2Isabelle
  imports Main
begin

section \<open>Python values, exceptions and outcomes\<close>

text \<open>
  The module \<^verbatim>\<open>mixer/blender_data/armature_proxy.py\<close> is embedded function by
  function. A Python call either returns a value or raises; both leave a state behind,
  so every operation has the type \<open>state \<Rightarrow> 'a outcome \<times> state\<close>: the state reached is
  kept on the raising path too, because the module's clean-up code is what is verified.
\<close>

datatype exn =
    TypeError | AttributeError | AssertionError | KeyError
  | RuntimeError | ReferenceError | CollaboratorError string

datatype 'a outcome = Return 'a | Raise exn

datatype val = NoneV | Num int | Str string | Seq "val list"

text \<open>Python's \<^verbatim>\<open>len\<close>: a value without a length raises \<^verbatim>\<open>TypeError\<close> (here \<open>None\<close>).\<close>

fun len :: "val \<Rightarrow> nat option" where
  "len (Seq xs) = Some (length xs)"
| "len (Str s) = Some (length s)"
| "len (Num n) = None"
| "len NoneV = None"

definition seq :: "('s \<Rightarrow> 'a outcome \<times> 's) \<Rightarrow> ('a \<Rightarrow> 's \<Rightarrow> 'b outcome \<times> 's) \<Rightarrow> 's \<Rightarrow> 'b outcome \<times> 's" where
  "seq m f s = (case m s of (Return a, s') \<Rightarrow> f a s' | (Raise e, s') \<Rightarrow> (Raise e, s'))"

section \<open>The host: objects, modes, selection\<close>

text \<open>
  The host (\<^verbatim>\<open>bpy\<close>) is not part of the repository. Its data, as far as the module
  reads it, is a record:
  \<^item> \<^verbatim>\<open>bpy.data.objects\<close> is the list \<open>objects\<close>; an object reference is its index, and
    \<^verbatim>\<open>obj.data\<close>, \<^verbatim>\<open>obj.mode\<close> and \<^verbatim>\<open>obj.mixer_uuid\<close> are fields of the object;
  \<^item> \<^verbatim>\<open>bpy.context.view_layer.objects.active\<close> is \<open>active\<close>;
  \<^item> \<^verbatim>\<open>bpy.context.window_manager.windows\<close> is \<open>windows\<close>, each window given by the
    types of the areas of its screen;
  \<^item> everything else (the content of the datablocks, the synchronisation context) is
    the component \<open>ext\<close>.
  Modes are strings, as in the module.
\<close>

record datablock =
  ptr :: nat
  mixer_uuid :: string
  is_armature :: bool

record object =
  obj_mixer_uuid :: string
  data :: "datablock option"
  mode :: string

record 'x host =
  objects :: "object list"
  active :: "nat option"
  windows :: "string list list"
  ext :: 'x

definition object_at :: "'x host \<Rightarrow> nat \<Rightarrow> object option" where
  "object_at h i = (if i < length (objects h) then Some (objects h ! i) else None)"

text \<open>Reading \<^verbatim>\<open>o.mode\<close> of a reference that may be \<^verbatim>\<open>None\<close>.\<close>

definition mode_of :: "nat option \<Rightarrow> 'x host \<Rightarrow> string outcome \<times> 'x host" where
  "mode_of r h =
     (case r of
        None \<Rightarrow> (Raise AttributeError, h)
      | Some i \<Rightarrow> (case object_at h i of
                    None \<Rightarrow> (Raise ReferenceError, h)
                  | Some ob \<Rightarrow> (Return (mode ob), h)))"

text \<open>
  The dictionary \<^verbatim>\<open>bpy.context.copy()\<close> with the three entries \<open>override_context\<close>
  overrides; of the copied entries, the module reads \<^verbatim>\<open>"mode"\<close> and writes
  \<^verbatim>\<open>"active_object"\<close>.
\<close>

record context_override =
  ctx_window :: nat
  ctx_screen :: nat
  ctx_area :: nat
  ctx_active_object :: "nat option"
  ctx_mode :: string

text \<open>
  The operations of the host are parameters of the embedding: what they do to the host,
  and whether they raise, is the host's business and is nowhere fixed by the module.
  \<^item> \<open>context_mode\<close> is the value of \<^verbatim>\<open>bpy.context.mode\<close>;
  \<^item> \<open>set_active r\<close> is the assignment \<^verbatim>\<open>bpy.context.view_layer.objects.active = r\<close>;
  \<^item> \<open>mode_set ctx m\<close> is the call \<^verbatim>\<open>bpy.ops.object.mode_set(mode=m)\<close>, with the context
    override \<open>ctx\<close> as first argument when there is one.
\<close>

record 'x host_api =
  context_mode :: "'x host \<Rightarrow> string"
  set_active :: "nat option \<Rightarrow> 'x host \<Rightarrow> unit outcome \<times> 'x host"
  mode_set :: "context_override option \<Rightarrow> string \<Rightarrow> 'x host \<Rightarrow> unit outcome \<times> 'x host"

section \<open>The proxy, the module state and the collaborators\<close>

record proxy =
  proxy_data :: "(string \<times> val) list"
  custom_properties :: "(string \<times> val) list"

datatype level = WARNING | ERROR

text \<open>
  \<open>edit_bones_map\<close> is the class attribute \<^verbatim>\<open>ArmatureProxy._edit_bones_map\<close>,
  \<open>log_records\<close> what the module's own \<^verbatim>\<open>logger\<close> has emitted, and \<open>writes\<close> the
  calls of \<^verbatim>\<open>write_attribute\<close> the module has made, in order.
\<close>

record 'x world =
  host :: "'x host"
  edit_bones_map :: "string \<rightharpoonup> val"
  log_records :: "(level \<times> string) list"
  writes :: "(datablock \<times> string \<times> val) list"

datatype delta = DeltaAddition string val | DeltaDeletion string | DeltaUpdate string val

datatype key = IntKey int | StrKey string

text \<open>
  The collaborators (the base class \<^verbatim>\<open>DatablockProxy\<close>, \<^verbatim>\<open>write_attribute\<close>, the
  visit state, the reference resolver) are not in the module: they are parameters. They
  read the whole host but return only a new \<open>ext\<close> (and, for the methods of the base
  class, a new proxy): selection and modes change only through the host operations the
  module itself calls, and the module's map, logger and call trace are its own.
\<close>

record 'x env =
  pre_save :: "datablock \<Rightarrow> proxy \<Rightarrow> 'x host \<Rightarrow> datablock option outcome \<times> proxy \<times> 'x"
  enter_datablock :: "proxy \<Rightarrow> datablock \<Rightarrow> 'x host \<Rightarrow> 'x"
  exit_datablock :: "'x host \<Rightarrow> 'x"
  write_attribute :: "datablock \<Rightarrow> string \<Rightarrow> val \<Rightarrow> 'x host \<Rightarrow> unit outcome \<times> 'x"
  custom_properties_save :: "proxy \<Rightarrow> datablock \<Rightarrow> 'x host \<Rightarrow> unit outcome \<times> 'x"
  base_load :: "datablock \<Rightarrow> proxy \<Rightarrow> 'x host \<Rightarrow> unit outcome \<times> proxy \<times> 'x"
  base_diff :: "datablock \<Rightarrow> string \<Rightarrow> string \<Rightarrow> proxy \<Rightarrow> proxy \<Rightarrow> 'x host \<Rightarrow> delta option outcome \<times> proxy \<times> 'x"
  base_apply :: "datablock \<Rightarrow> string \<Rightarrow> string \<Rightarrow> delta \<Rightarrow> bool \<Rightarrow> proxy \<Rightarrow> 'x host \<Rightarrow> proxy outcome \<times> proxy \<times> 'x"
  resolve :: "string \<Rightarrow> nat \<Rightarrow> 'x host \<Rightarrow> unit outcome \<times> 'x"

text \<open>Lifting a host operation, and a collaborator that returns a new \<open>ext\<close>, to the world.\<close>

definition on_host :: "('x host \<Rightarrow> 'a outcome \<times> 'x host) \<Rightarrow> 'x world \<Rightarrow> 'a outcome \<times> 'x world" where
  "on_host f w = (case f (host w) of (r, h') \<Rightarrow> (r, w\<lparr>host := h'\<rparr>))"

definition on_ext :: "('x host \<Rightarrow> 'a outcome \<times> 'x) \<Rightarrow> 'x world \<Rightarrow> 'a outcome \<times> 'x world" where
  "on_ext f w = (case f (host w) of (r, x') \<Rightarrow> (r, w\<lparr>host := (host w)\<lparr>ext := x'\<rparr>\<rparr>))"

section \<open>The module\<close>

subsection \<open>\<^verbatim>\<open>find_armature_parent_object\<close>\<close>

fun first_owner :: "nat \<Rightarrow> object list \<Rightarrow> datablock \<Rightarrow> nat option" where
  "first_owner i [] d = None"
| "first_owner i (ob # obs) d = (if data ob = Some d then Some i else first_owner (Suc i) obs d)"

definition find_armature_parent_object :: "'x host \<Rightarrow> datablock \<Rightarrow> nat option" where
  "find_armature_parent_object h d = first_owner 0 (objects h) d"

subsection \<open>\<^verbatim>\<open>apply_edit_bones\<close>\<close>

text \<open>\<^verbatim>\<open>isinstance(obj.data, T.Armature)\<close>: the armature an object refers to, if any.\<close>

definition armature_data :: "object \<Rightarrow> datablock option" where
  "armature_data ob =
     (case data ob of None \<Rightarrow> None | Some d \<Rightarrow> if is_armature d then Some d else None)"

text \<open>\<^verbatim>\<open>dict.get\<close> gives \<open>None\<close> for a missing key.\<close>

definition dict_get :: "(string \<rightharpoonup> val) \<Rightarrow> string \<Rightarrow> val" where
  "dict_get m k = (case m k of None \<Rightarrow> NoneV | Some v \<Rightarrow> v)"

text \<open>\<^verbatim>\<open>del m[k]\<close> raises \<^verbatim>\<open>KeyError\<close> for a missing key.\<close>

definition dict_del :: "string \<Rightarrow> 'x world \<Rightarrow> unit outcome \<times> 'x world" where
  "dict_del k w =
     (case edit_bones_map w k of
        None \<Rightarrow> (Raise KeyError, w)
      | Some v \<Rightarrow> (Return (), w\<lparr>edit_bones_map := (edit_bones_map w)(k := None)\<rparr>))"

text \<open>
  The \<^verbatim>\<open>try\<close> block of \<^verbatim>\<open>apply_edit_bones\<close>: the call is recorded, what it raises
  is dropped by \<^verbatim>\<open>except Exception: pass\<close>, and nothing is logged.
\<close>

definition try_write_attribute :: "'x env \<Rightarrow> datablock \<Rightarrow> string \<Rightarrow> val \<Rightarrow> 'x world \<Rightarrow> unit outcome \<times> 'x world" where
  "try_write_attribute env d k v w =
     (case write_attribute env d k v (host w) of
        (r, x') \<Rightarrow> (Return (), w\<lparr>host := (host w)\<lparr>ext := x'\<rparr>, writes := writes w @ [(d, k, v)]\<rparr>))"

definition apply_edit_bones :: "'x host_api \<Rightarrow> 'x env \<Rightarrow> nat \<Rightarrow> 'x world \<Rightarrow> unit outcome \<times> 'x world" where
  "apply_edit_bones api env obj w =
     (case object_at (host w) obj of
        None \<Rightarrow> (Raise ReferenceError, w)
      | Some ob \<Rightarrow>
         (case armature_data ob of
            None \<Rightarrow> (Return (), w)
          | Some d \<Rightarrow>
             (let edit_bones = dict_get (edit_bones_map w) (mixer_uuid d) in
              if edit_bones = NoneV
              then (Return (), w\<lparr>log_records := log_records w @ [(ERROR, ''No edit bones found'')]\<rparr>)
              else
               (case len edit_bones of
                  None \<Rightarrow> (Raise TypeError, w)
                | Some n \<Rightarrow>
                   if n = 0 then (Return (), w)
                   else
                    seq (on_ext (resolve env (obj_mixer_uuid ob) obj)) (\<lambda>_.
                    seq (\<lambda>w1. if context_mode api (host w1) \<noteq> ''OBJECT''
                               then on_host (mode_set api None ''OBJECT'') w1 else (Return (), w1)) (\<lambda>_.
                    seq (on_host (set_active api (Some obj))) (\<lambda>_.
                    seq (on_host (mode_set api None ''EDIT'')) (\<lambda>_.
                    seq (try_write_attribute env d ''edit_bones'' edit_bones) (\<lambda>_.
                    seq (dict_del (mixer_uuid d)) (\<lambda>_.
                    on_host (mode_set api None ''OBJECT''))))))) w))))"

text \<open>
  The statements of \<open>apply_edit_bones\<close> between the test of the length and the
  \<^verbatim>\<open>try\<close>: the resolution of the reference, the return to \<^verbatim>\<open>OBJECT\<close> mode when the
  context is in another mode, the activation of the object and the switch to \<^verbatim>\<open>EDIT\<close>
  mode. Each of them may raise, and then the \<^verbatim>\<open>try\<close> is not reached.
\<close>

definition before_write :: "'x host_api \<Rightarrow> 'x env \<Rightarrow> nat \<Rightarrow> object \<Rightarrow> 'x world \<Rightarrow> unit outcome \<times> 'x world" where
  "before_write api env obj ob =
     seq (on_ext (resolve env (obj_mixer_uuid ob) obj)) (\<lambda>_.
     seq (\<lambda>w1. if context_mode api (host w1) \<noteq> ''OBJECT''
                then on_host (mode_set api None ''OBJECT'') w1 else (Return (), w1)) (\<lambda>_.
     seq (on_host (set_active api (Some obj))) (\<lambda>_.
     on_host (mode_set api None ''EDIT''))))"

subsection \<open>\<^verbatim>\<open>override_context\<close>\<close>

fun has_view_3d :: "string list \<Rightarrow> bool" where
  "has_view_3d [] = False"
| "has_view_3d (area_type # areas) = (if area_type = ''VIEW_3D'' then True else has_view_3d areas)"

fun first_view_3d_window :: "nat \<Rightarrow> string list list \<Rightarrow> nat option" where
  "first_view_3d_window i [] = None"
| "first_view_3d_window i (areas # ws) =
     (if has_view_3d areas then Some i else first_view_3d_window (Suc i) ws)"

definition override_context :: "'x host_api \<Rightarrow> 'x host \<Rightarrow> context_override option" where
  "override_context api h =
     (case first_view_3d_window 0 (windows h) of
        None \<Rightarrow> None
      | Some window \<Rightarrow>
          Some \<lparr>ctx_window = window, ctx_screen = window, ctx_area = 0,
                ctx_active_object = active h, ctx_mode = context_mode api h\<rparr>)"

subsection \<open>\<^verbatim>\<open>load\<close>, \<^verbatim>\<open>_diff\<close>, \<^verbatim>\<open>apply\<close>\<close>

text \<open>
  These three methods touch the proxy and the host only; their state is the pair of
  both. \<open>in_host\<close> runs a host operation, \<open>in_base\<close> a method of the base class.
\<close>

definition in_host :: "('x host \<Rightarrow> 'a outcome \<times> 'x host) \<Rightarrow> proxy \<times> 'x host \<Rightarrow> 'a outcome \<times> (proxy \<times> 'x host)" where
  "in_host f s = (case f (snd s) of (r, h') \<Rightarrow> (r, (fst s, h')))"

definition in_base :: "(proxy \<Rightarrow> 'x host \<Rightarrow> 'a outcome \<times> proxy \<times> 'x) \<Rightarrow> proxy \<times> 'x host \<Rightarrow> 'a outcome \<times> (proxy \<times> 'x host)" where
  "in_base f s = (case f (fst s) (snd s) of (r, self', x') \<Rightarrow> (r, (self', (snd s)\<lparr>ext := x'\<rparr>)))"

definition ArmatureProxy_load :: "'x host_api \<Rightarrow> 'x env \<Rightarrow> datablock \<Rightarrow> proxy \<times> 'x host \<Rightarrow> unit outcome \<times> (proxy \<times> 'x host)" where
  "ArmatureProxy_load api env datablock s =
     (case find_armature_parent_object (snd s) datablock of
        None \<Rightarrow> (Return (), s)
      | Some obj \<Rightarrow>
         (case override_context api (snd s) of
            None \<Rightarrow> (Raise TypeError, s)
          | Some ctx0 \<Rightarrow>
             (let ctx = ctx0\<lparr>ctx_active_object := Some obj\<rparr>;
                  previous_mode = ctx_mode ctx in
              seq (in_host (mode_set api (Some ctx) ''EDIT'')) (\<lambda>_.
              seq (in_base (base_load env datablock)) (\<lambda>_.
              in_host (mode_set api (Some ctx) previous_mode))) s)))"


definition ArmatureProxy_apply :: "'x host_api \<Rightarrow> 'x env \<Rightarrow> datablock \<Rightarrow> string \<Rightarrow> key \<Rightarrow> delta \<Rightarrow> bool \<Rightarrow> proxy \<times> 'x host \<Rightarrow> proxy outcome \<times> (proxy \<times> 'x host)" where
  "ArmatureProxy_apply api env attribute parent ky delta to_blender s =
     (case ky of
        IntKey n \<Rightarrow> (Raise AssertionError, s)
      | StrKey k \<Rightarrow>
         (let prev_active = active (snd s) in
          seq (in_host (mode_of prev_active)) (\<lambda>prev_active_mode.
          seq (\<lambda>s1. (Return (find_armature_parent_object (snd s1) attribute), s1)) (\<lambda>obj.
          seq (in_host (set_active api obj)) (\<lambda>_.
          seq (in_host (mode_of obj)) (\<lambda>prev_obj_mode.
          seq (in_host (mode_set api None ''EDIT'')) (\<lambda>_.
          seq (in_base (base_apply env attribute parent k delta to_blender)) (\<lambda>updated_proxy.
          seq (in_host (mode_set api None prev_obj_mode)) (\<lambda>_.
          seq (in_host (set_active api prev_active)) (\<lambda>_.
          seq (in_host (mode_set api None prev_active_mode)) (\<lambda>_.
          (\<lambda>s9. (Return updated_proxy, s9))))))))))) s))"

subsection \<open>\<^verbatim>\<open>_save\<close>\<close>

definition set_ext :: "'x \<Rightarrow> 'x world \<Rightarrow> 'x world" where
  "set_ext x w = w\<lparr>host := (host w)\<lparr>ext := x\<rparr>\<rparr>"

text \<open>The loop over \<^verbatim>\<open>self._data.items()\<close>, in the order of the dictionary.\<close>

fun save_items :: "'x env \<Rightarrow> datablock \<Rightarrow> (string \<times> val) list \<Rightarrow> 'x world \<Rightarrow> unit outcome \<times> 'x world" where
  "save_items env datablock [] w = (Return (), w)"
| "save_items env datablock ((k, v) # kvs) w =
     (if k \<noteq> ''edit_bones'' then
        (case write_attribute env datablock k v (host w) of
           (Raise e, x') \<Rightarrow> (Raise e, set_ext x' (w\<lparr>writes := writes w @ [(datablock, k, v)]\<rparr>))
         | (Return u, x') \<Rightarrow>
             save_items env datablock kvs (set_ext x' (w\<lparr>writes := writes w @ [(datablock, k, v)]\<rparr>)))
      else
        save_items env datablock kvs
          (w\<lparr>edit_bones_map := (edit_bones_map w)(mixer_uuid datablock \<mapsto> v)\<rparr>))"

text \<open>\<open>NoneNone\<close> is the pair \<^verbatim>\<open>(None, None)\<close>.\<close>

datatype save_result = Saved datablock | NoneNone

definition ArmatureProxy_save :: "'x env \<Rightarrow> datablock \<Rightarrow> proxy \<times> 'x world \<Rightarrow> save_result outcome \<times> (proxy \<times> 'x world)" where
  "ArmatureProxy_save env datablock0 s =
     (case pre_save env datablock0 (fst s) (host (snd s)) of
        (Raise e, self, x1) \<Rightarrow> (Raise e, (self, set_ext x1 (snd s)))
      | (Return None, self, x1) \<Rightarrow>
          (Return NoneNone,
           (self, (set_ext x1 (snd s))\<lparr>log_records := log_records (snd s) @
              [(WARNING, ''DatablockProxy.update_standalone_datablock() pre_save returns None'')]\<rparr>))
      | (Return (Some datablock), self, x1) \<Rightarrow>
          (let w1 = set_ext x1 (snd s);
               w2 = set_ext (enter_datablock env self datablock (host w1)) w1 in
           case save_items env datablock (proxy_data self) w2 of
             (r, w3) \<Rightarrow>
               (let w4 = set_ext (exit_datablock env (host w3)) w3 in
                case r of
                  Raise e \<Rightarrow> (Raise e, (self, w4))
                | Return u \<Rightarrow>
                    (case custom_properties_save env self datablock (host w4) of
                       (Raise e, x5) \<Rightarrow> (Raise e, (self, set_ext x5 w4))
                     | (Return u', x5) \<Rightarrow> (Return (Saved datablock), (self, set_ext x5 w4))))))"

text \<open>
  The write-back as the spec words it: every captured attribute except the gated region
  is written via the attribute-write path, in order, each write on the document the
  previous one left. \<open>ordinary\<close> selects the attributes other than the gated region.
\<close>

definition ordinary :: "(string \<times> val) list \<Rightarrow> (string \<times> val) list" where
  "ordinary kvs = filter (\<lambda>(k, v). k \<noteq> ''edit_bones'') kvs"

fun write_back :: "'x env \<Rightarrow> datablock \<Rightarrow> (string \<times> val) list \<Rightarrow> 'x host \<Rightarrow> unit outcome \<times> 'x" where
  "write_back env d [] h = (Return (), ext h)"
| "write_back env d ((k, v) # kvs) h =
     (case write_attribute env d k v h of
        (Raise e, x') \<Rightarrow> (Raise e, x')
      | (Return u, x') \<Rightarrow> write_back env d kvs (h\<lparr>ext := x'\<rparr>))"

section \<open>The collaborators, modelled\<close>

text \<open>
  A document holds, for each datablock (by \<open>ptr\<close>), its live attributes by name; the
  gated region is the attribute \<^verbatim>\<open>edit_bones\<close>.
\<close>

type_synonym document = "nat \<Rightarrow> (string \<times> val) list"

fun dict_set :: "string \<Rightarrow> val \<Rightarrow> (string \<times> val) list \<Rightarrow> (string \<times> val) list" where
  "dict_set k v [] = [(k, v)]"
| "dict_set k v ((k', v') # kvs) = (if k' = k then (k, v) # kvs else (k', v') # dict_set k v kvs)"

fun dict_pop :: "string \<Rightarrow> (string \<times> val) list \<Rightarrow> (string \<times> val) list" where
  "dict_pop k [] = []"
| "dict_pop k ((k', v') # kvs) = (if k' = k then dict_pop k kvs else (k', v') # dict_pop k kvs)"

text \<open>The gated mode is entered for a datablock when an object that refers to it is in \<^verbatim>\<open>EDIT\<close> mode.\<close>

definition in_gated_mode :: "'x host \<Rightarrow> datablock \<Rightarrow> bool" where
  "in_gated_mode h d = list_ex (\<lambda>ob. data ob = Some d \<and> mode ob = ''EDIT'') (objects h)"

text \<open>
  Modelled from the spec: \<^verbatim>\<open>DatablockProxy.load\<close> (the base class, in
  \<^verbatim>\<open>mixer/blender_data/datablock_proxy.py\<close>, not in the module). It captures every live
  attribute of the document object into the proxy; the gated region is observable only
  while the gated mode is entered, and is left unset otherwise.
\<close>

definition spec_load :: "datablock \<Rightarrow> proxy \<Rightarrow> document host \<Rightarrow> unit outcome \<times> proxy \<times> document" where
  "spec_load d self h =
     (Return (),
      self\<lparr>proxy_data := filter (\<lambda>(k, v). k \<noteq> ''edit_bones'' \<or> in_gated_mode h d) (ext h (ptr d))\<rparr>,
      ext h)"

text \<open>
  Modelled from the spec: \<^verbatim>\<open>DatablockProxy._diff\<close> (the base class). A read-only
  comparison of the captured value of one attribute with its live value: no delta when
  they agree, otherwise the delta that describes the change.
\<close>

definition spec_diff :: "datablock \<Rightarrow> string \<Rightarrow> string \<Rightarrow> proxy \<Rightarrow> proxy \<Rightarrow> document host \<Rightarrow> delta option outcome \<times> proxy \<times> document" where
  "spec_diff d k prop diff self h =
     (let live = (if k = ''edit_bones'' \<and> \<not> in_gated_mode h d then None else map_of (ext h (ptr d)) k);
          captured = map_of (proxy_data self) k in
      (Return (if live = captured then None
               else (case live of
                       None \<Rightarrow> Some (DeltaDeletion k)
                     | Some v \<Rightarrow> (case captured of
                                    None \<Rightarrow> Some (DeltaAddition k v)
                                  | Some c \<Rightarrow> Some (DeltaUpdate k v)))),
       self, ext h))"

text \<open>
  Modelled from the spec: a delta is an immutable description of a change to one
  attribute (add, remove, update); applied to a set of attributes it makes the addressed
  attribute match.
\<close>

fun apply_delta :: "delta \<Rightarrow> (string \<times> val) list \<Rightarrow> (string \<times> val) list" where
  "apply_delta (DeltaAddition k v) kvs = dict_set k v kvs"
| "apply_delta (DeltaUpdate k v) kvs = dict_set k v kvs"
| "apply_delta (DeltaDeletion k) kvs = dict_pop k kvs"

text \<open>
  Modelled from the spec: \<^verbatim>\<open>DatablockProxy.apply\<close> (the base class), the generic
  apply algorithm. It applies the delta to the proxy and, when \<open>to_blender\<close> is set, to
  the live document object, and returns the updated proxy.
\<close>

definition spec_apply :: "datablock \<Rightarrow> string \<Rightarrow> string \<Rightarrow> delta \<Rightarrow> bool \<Rightarrow> proxy \<Rightarrow> document host \<Rightarrow> proxy outcome \<times> proxy \<times> document" where
  "spec_apply d parent k delta to_blender self h =
     (let self' = self\<lparr>proxy_data := apply_delta delta (proxy_data self)\<rparr> in
      (Return self', self',
       if to_blender then (ext h)(ptr d := apply_delta delta (ext h (ptr d))) else ext h))"

text \<open>
  Modelled from the spec: \<^verbatim>\<open>write_attribute\<close> (in
  \<^verbatim>\<open>mixer/blender_data/attributes.py\<close>), the generic attribute-write path: it stores the
  value under the attribute's name in the document object. The gated region is writable
  only while the gated mode is entered; the host raises otherwise.
\<close>

definition spec_write_attribute :: "datablock \<Rightarrow> string \<Rightarrow> val \<Rightarrow> document host \<Rightarrow> unit outcome \<times> document" where
  "spec_write_attribute d k v h =
     (if k = ''edit_bones'' \<and> \<not> in_gated_mode h d
      then (Raise (CollaboratorError ''edit_bones is not writable''), ext h)
      else (Return (), (ext h)(ptr d := dict_set k v (ext h (ptr d)))))"

text \<open>
  The environment of the modelled collaborators; the pre-save hook accepts, and the
  visit state, the custom properties and the resolver leave the document alone.
\<close>

definition spec_env :: "document env" where
  "spec_env =
     \<lparr>pre_save = (\<lambda>d self h. (Return (Some d), self, ext h)),
      enter_datablock = (\<lambda>self d h. ext h),
      exit_datablock = (\<lambda>h. ext h),
      write_attribute = spec_write_attribute,
      custom_properties_save = (\<lambda>self d h. (Return (), ext h)),
      base_load = spec_load,
      base_diff = spec_diff,
      base_apply = spec_apply,
      resolve = (\<lambda>u obj h. (Return (), ext h))\<rparr>"

text \<open>Collaborators that fail: a pre-save hook that rejects; a base class and a write path that raise.\<close>

definition rejecting_env :: "document env" where
  "rejecting_env = spec_env\<lparr>pre_save := (\<lambda>d self h. (Return None, self, ext h))\<rparr>"

definition raising_env :: "document env" where
  "raising_env =
     spec_env\<lparr>write_attribute := (\<lambda>d k v h. (Raise (CollaboratorError ''write failed''), ext h)),
              base_load := (\<lambda>d self h. (Raise (CollaboratorError ''load failed''), self, ext h)),
              base_diff := (\<lambda>d k prop diff self h. (Raise (CollaboratorError ''diff failed''), self, ext h)),
              base_apply := (\<lambda>d parent k delta tb self h. (Raise (CollaboratorError ''apply failed''), self, ext h))\<rparr>"

section \<open>A simple host\<close>

text \<open>
  One host among those the module can run on, for the concrete runs and for the
  properties that are stated of a particular host. In it every object has its own mode:
  \<^verbatim>\<open>mode_set\<close> sets the mode of the active object (of the override when there is one)
  and of no other, and raises only without an active object; the assignment of the
  active object never raises; the mode of the context is the mode of the active object
  and \<^verbatim>\<open>OBJECT\<close> without one.
\<close>

definition simple_context_mode :: "'x host \<Rightarrow> string" where
  "simple_context_mode h =
     (case active h of
        None \<Rightarrow> ''OBJECT''
      | Some i \<Rightarrow> (case object_at h i of None \<Rightarrow> ''OBJECT'' | Some ob \<Rightarrow> mode ob))"

definition mode_set_on :: "nat option \<Rightarrow> string \<Rightarrow> 'x host \<Rightarrow> unit outcome \<times> 'x host" where
  "mode_set_on target m h =
     (case target of
        None \<Rightarrow> (Raise RuntimeError, h)
      | Some i \<Rightarrow>
          if i < length (objects h)
          then (Return (), h\<lparr>objects := (objects h)[i := (objects h ! i)\<lparr>mode := m\<rparr>]\<rparr>)
          else (Raise ReferenceError, h))"

definition simple_mode_set :: "context_override option \<Rightarrow> string \<Rightarrow> 'x host \<Rightarrow> unit outcome \<times> 'x host" where
  "simple_mode_set ctx m h =
     mode_set_on (case ctx of None \<Rightarrow> active h | Some c \<Rightarrow> ctx_active_object c) m h"

definition simple_set_active :: "nat option \<Rightarrow> 'x host \<Rightarrow> unit outcome \<times> 'x host" where
  "simple_set_active r h = (Return (), h\<lparr>active := r\<rparr>)"

definition simple_host :: "'x host_api" where
  "simple_host =
     \<lparr>context_mode = simple_context_mode, set_active = simple_set_active, mode_set = simple_mode_set\<rparr>"

text \<open>A host that refuses to make an object active.\<close>

definition refusing_host :: "'x host_api" where
  "refusing_host =
     simple_host\<lparr>set_active := (\<lambda>r h. (Raise RuntimeError, h))\<rparr>"

section \<open>A scene\<close>

text \<open>
  Two rigs and a mesh: the object \<open>A\<close> (index 0) owns the armature \<open>armature_A\<close>, is the
  active object and is in \<^verbatim>\<open>POSE\<close> mode; the object \<open>O\<close> (index 1) owns \<open>armature_D\<close> and is
  in \<^verbatim>\<open>OBJECT\<close> mode; index 2 is a mesh object. \<open>armature_U\<close> has no owner.
\<close>

definition armature_A :: datablock where
  "armature_A = \<lparr>ptr = 0, mixer_uuid = ''uuid-A'', is_armature = True\<rparr>"

definition armature_D :: datablock where
  "armature_D = \<lparr>ptr = 1, mixer_uuid = ''uuid-D'', is_armature = True\<rparr>"

definition mesh_M :: datablock where
  "mesh_M = \<lparr>ptr = 2, mixer_uuid = ''uuid-M'', is_armature = False\<rparr>"

definition armature_U :: datablock where
  "armature_U = \<lparr>ptr = 3, mixer_uuid = ''uuid-U'', is_armature = True\<rparr>"

definition scene_objects :: "object list" where
  "scene_objects =
     [\<lparr>obj_mixer_uuid = ''obj-A'', data = Some armature_A, mode = ''POSE''\<rparr>,
      \<lparr>obj_mixer_uuid = ''obj-O'', data = Some armature_D, mode = ''OBJECT''\<rparr>,
      \<lparr>obj_mixer_uuid = ''obj-M'', data = Some mesh_M, mode = ''OBJECT''\<rparr>]"

definition scene_document :: document where
  "scene_document =
     (\<lambda>p. if p = 1 then [(''name'', Str ''rig''), (''edit_bones'', Seq [Str ''b1'', Str ''b2''])]
          else if p = 3 then [(''name'', Str ''loose rig'')]
          else [])"

definition scene :: "document host" where
  "scene = \<lparr>objects = scene_objects, active = Some 0,
            windows = [[''TEXT_EDITOR'', ''VIEW_3D'']], ext = scene_document\<rparr>"

definition empty_proxy :: proxy where
  "empty_proxy = \<lparr>proxy_data = [], custom_properties = []\<rparr>"

definition edited_proxy :: proxy where
  "edited_proxy =
     \<lparr>proxy_data = [(''name'', Str ''rig2''), (''edit_bones'', Seq [Str ''b1'', Str ''b2'', Str ''b3''])],
      custom_properties = []\<rparr>"

definition scene_proxy :: proxy where
  "scene_proxy =
     \<lparr>proxy_data = [(''name'', Str ''rig''), (''edit_bones'', Seq [Str ''b1'', Str ''b2''])],
      custom_properties = []\<rparr>"

definition scene_world :: "(string \<rightharpoonup> val) \<Rightarrow> document world" where
  "scene_world m = \<lparr>host = scene, edit_bones_map = m, log_records = [], writes = []\<rparr>"

section \<open>Properties\<close>

subsection \<open>Unfolding\<close>

lemmas scene_defs = scene_world_def scene_def scene_objects_def scene_document_def
  scene_proxy_def edited_proxy_def empty_proxy_def armature_A_def armature_D_def mesh_M_def
  armature_U_def

lemmas spec_env_defs = spec_env_def rejecting_env_def raising_env_def spec_load_def spec_diff_def
  spec_apply_def spec_write_attribute_def in_gated_mode_def

lemmas simple_host_defs = simple_host_def refusing_host_def simple_context_mode_def
  simple_mode_set_def simple_set_active_def mode_set_on_def

lemmas host_ops = seq_def on_ext_def on_host_def mode_of_def object_at_def

subsection \<open>\<^verbatim>\<open>apply_edit_bones\<close>: the early returns\<close>

text \<open>
  C10. An object whose data is not an armature (or that has no data): \<open>apply_edit_bones\<close>
  returns at once and leaves the whole state as it was, whatever the host, the
  collaborators and the map: nothing is logged, the map is neither read nor changed, no
  collaborator and no host operation is called.
\<close>

theorem apply_edit_bones_not_armature:
  assumes "object_at (host w) obj = Some ob" and "armature_data ob = None"
  shows "apply_edit_bones api env obj w = (Return (), w)"
  using assms by (simp add: apply_edit_bones_def)

theorem apply_edit_bones_not_armature_witness:
  "object_at (host (scene_world Map.empty)) 2 = Some (scene_objects ! 2)
   \<and> armature_data (scene_objects ! 2) = None
   \<and> apply_edit_bones refusing_host raising_env 2 (scene_world Map.empty) = (Return (), scene_world Map.empty)"
  using apply_edit_bones_not_armature [of "scene_world Map.empty" 2 "scene_objects ! 2" refusing_host raising_env]
  by (simp add: object_at_def scene_world_def scene_def scene_objects_def armature_data_def mesh_M_def)

text \<open>
  C9. When the map holds an empty sequence for the armature of the object,
  \<open>apply_edit_bones\<close> returns without writing, whatever the host and the collaborators:
  the whole state is as before, so the live gated region (in \<open>ext\<close>) is unchanged, no
  \<open>write_attribute\<close> call is recorded and no host operation has run.
\<close>

theorem apply_edit_bones_empty_sequence:
  assumes "object_at (host w) obj = Some ob" and "armature_data ob = Some d"
    and "edit_bones_map w (mixer_uuid d) = Some v" and "len v = Some 0"
  shows "apply_edit_bones api env obj w = (Return (), w)"
  using assms by (auto simp add: apply_edit_bones_def dict_get_def)

theorem apply_edit_bones_empty_sequence_witness:
  "object_at (host (scene_world [''uuid-D'' \<mapsto> Seq []])) 1 = Some (scene_objects ! 1)
   \<and> armature_data (scene_objects ! 1) = Some armature_D
   \<and> edit_bones_map (scene_world [''uuid-D'' \<mapsto> Seq []]) (mixer_uuid armature_D) = Some (Seq [])
   \<and> len (Seq []) = Some 0
   \<and> apply_edit_bones simple_host spec_env 1 (scene_world [''uuid-D'' \<mapsto> Seq []])
       = (Return (), scene_world [''uuid-D'' \<mapsto> Seq []])"
  using apply_edit_bones_empty_sequence
    [of "scene_world [''uuid-D'' \<mapsto> Seq []]" 1 "scene_objects ! 1" armature_D "Seq []" simple_host spec_env]
  by (simp add: object_at_def scene_world_def scene_def scene_objects_def armature_data_def armature_D_def)

subsection \<open>\<^verbatim>\<open>_save\<close>\<close>

lemma set_ext_fields [simp]:
  "writes (set_ext x w) = writes w"
  "edit_bones_map (set_ext x w) = edit_bones_map w"
  "log_records (set_ext x w) = log_records w"
  "ext (host (set_ext x w)) = x"
  "objects (host (set_ext x w)) = objects (host w)"
  "active (host (set_ext x w)) = active (host w)"
  "windows (host (set_ext x w)) = windows (host w)"
  by (simp_all add: set_ext_def)

lemma host_set_ext: "host (set_ext x w) = (host w)\<lparr>ext := x\<rparr>"
  by (simp add: set_ext_def)

lemma save_items_write_back:
  "save_items env d kvs w = (r, w') \<Longrightarrow>
   write_back env d (ordinary kvs) (host w) = (r, ext (host w')) \<and> host w' = (host w)\<lparr>ext := ext (host w')\<rparr>"
proof (induction kvs arbitrary: w)
  case Nil
  then show ?case by (auto simp: ordinary_def)
next
  case (Cons kv kvs)
  obtain k v where kv: "kv = (k, v)" by (cases kv)
  show ?case
  proof (cases "k = ''edit_bones''")
    case True
    with Cons.prems kv
    have "save_items env d kvs (w\<lparr>edit_bones_map := (edit_bones_map w)(mixer_uuid d \<mapsto> v)\<rparr>) = (r, w')"
      by simp
    from Cons.IH [OF this] True kv show ?thesis by (simp add: ordinary_def)
  next
    case False
    obtain r' x' where wr: "write_attribute env d k v (host w) = (r', x')"
      by (cases "write_attribute env d k v (host w)")
    show ?thesis
    proof (cases r')
      case (Raise e)
      with Cons.prems kv False wr show ?thesis by (auto simp: ordinary_def set_ext_def)
    next
      case (Return u)
      with Cons.prems kv False wr
      have "save_items env d kvs (set_ext x' (w\<lparr>writes := writes w @ [(d, k, v)]\<rparr>)) = (r, w')"
        by simp
      from Cons.IH [OF this] Return kv False wr show ?thesis
        by (simp add: ordinary_def set_ext_def)
    qed
  qed
qed

lemma save_items_writes:
  "save_items env d kvs w = (Return (), w') \<Longrightarrow>
   writes w' = writes w @ map (\<lambda>(k, v). (d, k, v)) (filter (\<lambda>(k, v). k \<noteq> ''edit_bones'') kvs)"
proof (induction kvs arbitrary: w)
  case Nil
  then show ?case by simp
next
  case (Cons kv kvs)
  obtain k v where kv: "kv = (k, v)" by (cases kv)
  show ?case
  proof (cases "k = ''edit_bones''")
    case True
    with Cons kv show ?thesis by simp
  next
    case False
    obtain r x' where wr: "write_attribute env d k v (host w) = (r, x')"
      by (cases "write_attribute env d k v (host w)")
    with Cons.prems kv False obtain u where "r = Return u"
      by (cases r) auto
    with Cons kv False wr show ?thesis by simp
  qed
qed

lemma save_items_other_keys:
  "save_items env d kvs w = (r, w') \<Longrightarrow> k \<noteq> mixer_uuid d \<Longrightarrow>
   edit_bones_map w' k = edit_bones_map w k"
proof (induction kvs arbitrary: w)
  case Nil
  then show ?case by simp
next
  case (Cons kv kvs)
  obtain k' v where kv: "kv = (k', v)" by (cases kv)
  show ?case
  proof (cases "k' = ''edit_bones''")
    case True
    with Cons kv show ?thesis by simp
  next
    case False
    obtain r' x' where wr: "write_attribute env d k' v (host w) = (r', x')"
      by (cases "write_attribute env d k' v (host w)")
    show ?thesis
    proof (cases r')
      case (Return u)
      with Cons kv False wr show ?thesis by simp
    next
      case (Raise e)
      with Cons.prems kv False wr show ?thesis by auto
    qed
  qed
qed

lemma save_items_no_edit_bones:
  "save_items env d kvs w = (r, w') \<Longrightarrow> ''edit_bones'' \<notin> fst ` set kvs \<Longrightarrow>
   edit_bones_map w' = edit_bones_map w"
proof (induction kvs arbitrary: w)
  case Nil
  then show ?case by simp
next
  case (Cons kv kvs)
  obtain k' v where kv: "kv = (k', v)" by (cases kv)
  with Cons.prems have ne: "k' \<noteq> ''edit_bones''" by auto
  obtain r' x' where wr: "write_attribute env d k' v (host w) = (r', x')"
    by (cases "write_attribute env d k' v (host w)")
  show ?case
  proof (cases r')
    case (Return u)
    with Cons kv ne wr show ?thesis by simp
  next
    case (Raise e)
    with Cons.prems kv ne wr show ?thesis by auto
  qed
qed

lemma save_items_stash:
  "save_items env d kvs w = (Return (), w') \<Longrightarrow> distinct (map fst kvs) \<Longrightarrow>
   (''edit_bones'', v) \<in> set kvs \<Longrightarrow> edit_bones_map w' (mixer_uuid d) = Some v"
proof (induction kvs arbitrary: w)
  case Nil
  then show ?case by simp
next
  case (Cons kv kvs)
  obtain k' v' where kv: "kv = (k', v')" by (cases kv)
  show ?case
  proof (cases "k' = ''edit_bones''")
    case True
    with Cons.prems kv have notin: "''edit_bones'' \<notin> fst ` set kvs" and v: "v' = v"
      by (auto simp: image_iff)
    from Cons.prems kv True
    have "save_items env d kvs (w\<lparr>edit_bones_map := (edit_bones_map w)(mixer_uuid d \<mapsto> v')\<rparr>) = (Return (), w')"
      by simp
    from save_items_no_edit_bones [OF this notin] v show ?thesis by simp
  next
    case False
    obtain r' x' where wr: "write_attribute env d k' v' (host w) = (r', x')"
      by (cases "write_attribute env d k' v' (host w)")
    with Cons.prems kv False obtain u where "r' = Return u"
      by (cases r') auto
    with Cons kv False wr show ?thesis by auto
  qed
qed

text \<open>
  C7. When the pre-save hook rejects (it returns \<open>None\<close>), \<open>_save\<close> returns the pair
  \<open>(None, None)\<close> and calls \<open>write_attribute\<close> not once: the trace of writes is the one
  at entry, the document is as the hook left it, the map is untouched, and one warning
  is logged.
\<close>

theorem save_rejected:
  assumes "pre_save env d (fst s) (host (snd s)) = (Return None, self', x')"
  shows "fst (ArmatureProxy_save env d s) = Return NoneNone
     \<and> writes (snd (snd (ArmatureProxy_save env d s))) = writes (snd s)
     \<and> ext (host (snd (snd (ArmatureProxy_save env d s)))) = x'
     \<and> edit_bones_map (snd (snd (ArmatureProxy_save env d s))) = edit_bones_map (snd s)
     \<and> map fst (log_records (snd (snd (ArmatureProxy_save env d s)))) = map fst (log_records (snd s)) @ [WARNING]"
  using assms by (simp add: ArmatureProxy_save_def)

theorem save_rejected_witness:
  "pre_save rejecting_env armature_D (fst (scene_proxy, scene_world Map.empty))
       (host (snd (scene_proxy, scene_world Map.empty)))
     = (Return None, scene_proxy, scene_document)
   \<and> fst (ArmatureProxy_save rejecting_env armature_D (scene_proxy, scene_world Map.empty)) = Return NoneNone
   \<and> writes (snd (snd (ArmatureProxy_save rejecting_env armature_D (scene_proxy, scene_world Map.empty)))) = []"
  using save_rejected [of rejecting_env armature_D "(scene_proxy, scene_world Map.empty)" scene_proxy scene_document]
  by (simp add: rejecting_env_def spec_env_def scene_world_def scene_def)

text \<open>
  C6. When \<open>_save\<close> returns the document object:
  \<^item> the calls of \<open>write_attribute\<close> it has made are exactly the captured attributes other
    than \<^verbatim>\<open>edit_bones\<close>, in the order of the proxy's dictionary, each on the document
    object the hook returned;
  \<^item> the document it leaves is the one these writes produce: the host after \<open>_save\<close> is
    the host at entry with, as \<open>ext\<close>, what \<open>write_back\<close> over the ordinary attributes
    gives (between the entry and the exit of the visit state, and before the custom
    properties are saved), and every one of these writes returned;
  \<^item> the value captured for \<^verbatim>\<open>edit_bones\<close> went through no write: it is in the map
    under the \<open>mixer_uuid\<close> of that document object, and no other key of the map has
    changed. (A Python dictionary has distinct keys.)
\<close>

theorem save_writes_and_stashes:
  assumes "ArmatureProxy_save env d0 s = (Return (Saved d), (self', w'))"
  shows "writes w' = writes (snd s) @
           map (\<lambda>(k, v). (d, k, v)) (filter (\<lambda>(k, v). k \<noteq> ''edit_bones'') (proxy_data self'))
     \<and> (\<forall>v. distinct (map fst (proxy_data self')) \<and> (''edit_bones'', v) \<in> set (proxy_data self')
            \<longrightarrow> edit_bones_map w' (mixer_uuid d) = Some v)
     \<and> (\<forall>k. k \<noteq> mixer_uuid d \<longrightarrow> edit_bones_map w' k = edit_bones_map (snd s) k)
     \<and> (let x1 = snd (snd (pre_save env d0 (fst s) (host (snd s))));
             h2 = (host (snd s))\<lparr>ext := enter_datablock env self' d ((host (snd s))\<lparr>ext := x1\<rparr>)\<rparr>;
             wb = write_back env d (ordinary (proxy_data self')) h2;
             h4 = (host (snd s))\<lparr>ext := exit_datablock env ((host (snd s))\<lparr>ext := snd wb\<rparr>)\<rparr>
         in fst wb = Return ()
            \<and> host w' = (host (snd s))\<lparr>ext := snd (custom_properties_save env self' d h4)\<rparr>)"
proof -
  obtain r0 self1 x1 where ps: "pre_save env d0 (fst s) (host (snd s)) = (r0, self1, x1)"
    by (cases "pre_save env d0 (fst s) (host (snd s))")
  from assms ps have r0: "r0 = Return (Some d)" and self1: "self1 = self'"
    by (auto simp: ArmatureProxy_save_def Let_def split: outcome.splits option.splits prod.splits)
  define w2 where "w2 = set_ext (enter_datablock env self' d (host (set_ext x1 (snd s)))) (set_ext x1 (snd s))"
  have h2: "host w2 = (host (snd s))\<lparr>ext := enter_datablock env self' d ((host (snd s))\<lparr>ext := x1\<rparr>)\<rparr>"
    by (simp add: w2_def set_ext_def)
  obtain r3 w3 where si: "save_items env d (proxy_data self') w2 = (r3, w3)"
    by (cases "save_items env d (proxy_data self') w2")
  define w4 where "w4 = set_ext (exit_datablock env (host w3)) w3"
  obtain r5 x5 where cs: "custom_properties_save env self' d (host w4) = (r5, x5)"
    by (cases "custom_properties_save env self' d (host w4)")
  from assms ps r0 self1 si cs have r3: "r3 = Return ()"
    and w': "w' = set_ext x5 w4"
    by (auto simp: ArmatureProxy_save_def Let_def w2_def w4_def split: outcome.splits option.splits prod.splits)
  from si r3 have si': "save_items env d (proxy_data self') w2 = (Return (), w3)" by simp
  define e3 where "e3 = ext (host w3)"
  from save_items_write_back [OF si'] h2
  have wb: "write_back env d (ordinary (proxy_data self'))
              ((host (snd s))\<lparr>ext := enter_datablock env self' d ((host (snd s))\<lparr>ext := x1\<rparr>)\<rparr>)
            = (Return (), e3)"
    and h3: "host w3 = (host (snd s))\<lparr>ext := e3\<rparr>"
    by (simp_all add: e3_def)
  have h4: "host w4 = (host (snd s))\<lparr>ext := exit_datablock env ((host (snd s))\<lparr>ext := e3\<rparr>)\<rparr>"
    by (simp add: w4_def set_ext_def h3)
  have hw': "host w' = (host (snd s))\<lparr>ext := x5\<rparr>"
    by (simp add: w' set_ext_def h4)
  have "writes w3 = writes (snd s) @
           map (\<lambda>(k, v). (d, k, v)) (filter (\<lambda>(k, v). k \<noteq> ''edit_bones'') (proxy_data self'))"
    using save_items_writes [OF si'] by (simp add: w2_def)
  moreover have "\<forall>v. distinct (map fst (proxy_data self')) \<and> (''edit_bones'', v) \<in> set (proxy_data self')
            \<longrightarrow> edit_bones_map w3 (mixer_uuid d) = Some v"
    using save_items_stash [OF si'] by blast
  moreover have "\<forall>k. k \<noteq> mixer_uuid d \<longrightarrow> edit_bones_map w3 k = edit_bones_map (snd s) k"
    using save_items_other_keys [OF si'] by (simp add: w2_def)
  moreover have "writes w' = writes w3" "edit_bones_map w' = edit_bones_map w3"
    by (simp_all add: w' w4_def)
  moreover have "(let x1 = snd (snd (pre_save env d0 (fst s) (host (snd s))));
             h2 = (host (snd s))\<lparr>ext := enter_datablock env self' d ((host (snd s))\<lparr>ext := x1\<rparr>)\<rparr>;
             wb = write_back env d (ordinary (proxy_data self')) h2;
             h4 = (host (snd s))\<lparr>ext := exit_datablock env ((host (snd s))\<lparr>ext := snd wb\<rparr>)\<rparr>
         in fst wb = Return ()
            \<and> host w' = (host (snd s))\<lparr>ext := snd (custom_properties_save env self' d h4)\<rparr>)"
    using ps wb cs h4 hw' by (simp add: Let_def)
  ultimately show ?thesis by simp
qed

theorem save_writes_and_stashes_witness:
  "fst (ArmatureProxy_save spec_env armature_D (edited_proxy, scene_world Map.empty)) = Return (Saved armature_D)
   \<and> writes (snd (snd (ArmatureProxy_save spec_env armature_D (edited_proxy, scene_world Map.empty))))
       = [(armature_D, ''name'', Str ''rig2'')]
   \<and> edit_bones_map (snd (snd (ArmatureProxy_save spec_env armature_D (edited_proxy, scene_world Map.empty))))
       ''uuid-D'' = Some (Seq [Str ''b1'', Str ''b2'', Str ''b3''])
   \<and> ext scene (ptr armature_D) = [(''name'', Str ''rig''), (''edit_bones'', Seq [Str ''b1'', Str ''b2''])]
   \<and> ext (host (snd (snd (ArmatureProxy_save spec_env armature_D (edited_proxy, scene_world Map.empty)))))
       (ptr armature_D) = [(''name'', Str ''rig2''), (''edit_bones'', Seq [Str ''b1'', Str ''b2''])]"
proof -
  let ?R = "ArmatureProxy_save spec_env armature_D (edited_proxy, scene_world Map.empty)"
  have r: "fst ?R = Return (Saved armature_D)" and p: "fst (snd ?R) = edited_proxy"
    by (simp_all add: ArmatureProxy_save_def spec_env_defs scene_defs set_ext_def)
  then have h: "?R = (Return (Saved armature_D), (edited_proxy, snd (snd ?R)))"
    by (metis prod.collapse)
  show ?thesis
    using r save_writes_and_stashes [OF h]
    by (simp add: Let_def ordinary_def edited_proxy_def armature_D_def scene_world_def scene_def
          scene_document_def spec_env_def spec_write_attribute_def)
qed

subsection \<open>\<^verbatim>\<open>load\<close> without an owner\<close>

text \<open>
  C2, as the code has it. When no object refers to the document object, \<open>load\<close> returns
  the proxy at once: nothing is captured, neither the ordinary attributes nor the gated
  region, nothing is raised and the host is untouched.
\<close>

theorem load_without_owner:
  assumes "find_armature_parent_object (snd s) d = None"
  shows "ArmatureProxy_load api env d s = (Return (), s)"
  using assms by (simp add: ArmatureProxy_load_def)

theorem load_without_owner_witness:
  "find_armature_parent_object (snd (empty_proxy, scene)) armature_U = None
   \<and> ArmatureProxy_load refusing_host raising_env armature_U (empty_proxy, scene) = (Return (), (empty_proxy, scene))"
  using load_without_owner [of "(empty_proxy, scene)" armature_U refusing_host raising_env]
  by (simp add: find_armature_parent_object_def scene_defs)

text \<open>
  C2 as stated fails: \<open>armature_U\<close> has no owner and a live attribute \<^verbatim>\<open>name\<close>, and
  after \<open>load\<close> the proxy holds no \<^verbatim>\<open>name\<close>.
\<close>

text \<open>
  C2 as stated fails: \<open>armature_U\<close> has no owner and a live attribute \<^verbatim>\<open>name\<close>, and
  after \<open>load\<close> the proxy holds no \<^verbatim>\<open>name\<close>.
\<close>

theorem load_without_owner_counterexample:
  "find_armature_parent_object scene armature_U = None
   \<and> map_of (ext scene (ptr armature_U)) ''name'' = Some (Str ''loose rig'')
   \<and> map_of (proxy_data (fst (snd (ArmatureProxy_load simple_host spec_env armature_U (empty_proxy, scene))))) ''name'' = None"
  by (simp add: ArmatureProxy_load_def find_armature_parent_object_def scene_defs)


subsection \<open>\<^verbatim>\<open>apply_edit_bones\<close>: the commit\<close>

text \<open>
  Past the test of the length, \<open>apply_edit_bones\<close> is \<open>before_write\<close> followed by the
  \<^verbatim>\<open>try\<close>, the \<^verbatim>\<open>del\<close> and the return to \<^verbatim>\<open>OBJECT\<close> mode. Neither the host nor
  the collaborators reach the map.
\<close>

lemma seq_assoc: "seq (seq m f) g = seq m (\<lambda>a. seq (f a) g)"
  by (auto simp: seq_def fun_eq_iff split: prod.splits outcome.splits)

lemma apply_edit_bones_reaches_write:
  assumes "object_at (host w) obj = Some ob" and "armature_data ob = Some d"
    and "edit_bones_map w (mixer_uuid d) = Some v" and "len v = Some n" and "0 < n"
  shows "apply_edit_bones api env obj w =
     seq (before_write api env obj ob) (\<lambda>_.
     seq (try_write_attribute env d ''edit_bones'' v) (\<lambda>_.
     seq (dict_del (mixer_uuid d)) (\<lambda>_.
     on_host (mode_set api None ''OBJECT'')))) w"
proof -
  from assms(4) have "v \<noteq> NoneV" by (cases v) auto
  with assms show ?thesis
    by (simp add: apply_edit_bones_def dict_get_def before_write_def seq_assoc)
qed

lemma before_write_frame:
  assumes "before_write api env obj ob w = (r, w1)"
  shows "edit_bones_map w1 = edit_bones_map w" and "log_records w1 = log_records w"
    and "writes w1 = writes w"
  using assms
  by (auto simp: before_write_def seq_def on_ext_def on_host_def
           split: prod.splits outcome.splits if_splits)

lemma apply_edit_bones_write_not_reached:
  assumes "object_at (host w) obj = Some ob" and "armature_data ob = Some d"
    and "edit_bones_map w (mixer_uuid d) = Some v"
    and "\<not> (\<exists>n. len v = Some n \<and> 0 < n \<and> fst (before_write api env obj ob w) = Return ())"
  shows "edit_bones_map (snd (apply_edit_bones api env obj w)) = edit_bones_map w"
proof (cases "\<exists>n. len v = Some n \<and> 0 < n")
  case False
  with assms(1-3) show ?thesis
    by (auto simp: apply_edit_bones_def dict_get_def split: option.splits)
next
  case True
  then obtain n where n: "len v = Some n" "0 < n" by blast
  obtain r w1 where bw: "before_write api env obj ob w = (r, w1)"
    by (cases "before_write api env obj ob w")
  with assms(4) n obtain e where "r = Raise e" by (cases r) auto
  with bw before_write_frame(1) [OF bw] apply_edit_bones_reaches_write [OF assms(1-3) n, of api env]
  show ?thesis by (simp add: seq_def)
qed

lemma apply_edit_bones_write_reached:
  assumes "object_at (host w) obj = Some ob" and "armature_data ob = Some d"
    and "edit_bones_map w (mixer_uuid d) = Some v" and "len v = Some n" and "0 < n"
    and "fst (before_write api env obj ob w) = Return ()"
  shows "edit_bones_map (snd (apply_edit_bones api env obj w)) = (edit_bones_map w)(mixer_uuid d := None)"
proof -
  obtain w1 where bw: "before_write api env obj ob w = (Return (), w1)"
    using assms(6) by (cases "before_write api env obj ob w") auto
  from before_write_frame(1) [OF bw] assms(3)
  have "edit_bones_map w1 = edit_bones_map w" "edit_bones_map w1 (mixer_uuid d) = Some v" by simp_all
  with bw apply_edit_bones_reaches_write [OF assms(1-5), of api env]
  show ?thesis
    by (auto simp: seq_def try_write_attribute_def dict_del_def on_host_def
             split: prod.splits outcome.splits)
qed

lemma save_items_keeps_entries:
  "save_items env d kvs w = (r, w') \<Longrightarrow> edit_bones_map w k \<noteq> None \<Longrightarrow> edit_bones_map w' k \<noteq> None"
proof (induction kvs arbitrary: w)
  case Nil
  then show ?case by simp
next
  case (Cons kv kvs)
  obtain k' v where kv: "kv = (k', v)" by (cases kv)
  show ?case
  proof (cases "k' = ''edit_bones''")
    case True
    with Cons.prems kv
    have "save_items env d kvs (w\<lparr>edit_bones_map := (edit_bones_map w)(mixer_uuid d \<mapsto> v)\<rparr>) = (r, w')"
      by simp
    from Cons.IH [OF this] Cons.prems(2) show ?thesis by simp
  next
    case False
    obtain r' x' where wr: "write_attribute env d k' v (host w) = (r', x')"
      by (cases "write_attribute env d k' v (host w)")
    show ?thesis
    proof (cases r')
      case (Return u)
      with Cons.prems kv False wr
      have "save_items env d kvs (set_ext x' (w\<lparr>writes := writes w @ [(d, k', v)]\<rparr>)) = (r, w')"
        by simp
      from Cons.IH [OF this] Cons.prems(2) show ?thesis by simp
    next
      case (Raise e)
      with Cons.prems kv False wr show ?thesis by auto
    qed
  qed
qed

lemma save_keeps_entries:
  assumes "edit_bones_map (snd s) k \<noteq> None"
  shows "edit_bones_map (snd (snd (ArmatureProxy_save env d0 s))) k \<noteq> None"
proof -
  obtain r0 self1 x1 where ps: "pre_save env d0 (fst s) (host (snd s)) = (r0, self1, x1)"
    by (cases "pre_save env d0 (fst s) (host (snd s))")
  show ?thesis
  proof (cases r0)
    case (Raise e)
    with ps assms show ?thesis by (simp add: ArmatureProxy_save_def)
  next
    case (Return dopt)
    show ?thesis
    proof (cases dopt)
      case None
      with Return ps assms show ?thesis by (simp add: ArmatureProxy_save_def)
    next
      case (Some d)
      define w2 where "w2 = set_ext (enter_datablock env self1 d (host (set_ext x1 (snd s)))) (set_ext x1 (snd s))"
      obtain r3 w3 where si: "save_items env d (proxy_data self1) w2 = (r3, w3)"
        by (cases "save_items env d (proxy_data self1) w2")
      from assms have "edit_bones_map w2 k \<noteq> None" by (simp add: w2_def)
      from save_items_keeps_entries [OF si this] have "edit_bones_map w3 k \<noteq> None" .
      with Some Return ps si show ?thesis
        by (auto simp: ArmatureProxy_save_def Let_def w2_def split: outcome.splits prod.splits)
    qed
  qed
qed

text \<open>
  C3, as the code has it, on any host. For an object that refers to an armature with an
  entry in the map: after \<open>apply_edit_bones\<close> the entry is absent exactly when the
  \<^verbatim>\<open>try\<close> was reached, that is when the cached value has a positive length and none of
  the statements ahead of the \<^verbatim>\<open>try\<close> (the resolver, the host's mode switches and the
  activation of the object) raised; whether the write then succeeded or raised plays no
  part. No other entry changes, and \<open>_save\<close> removes no entry: the \<^verbatim>\<open>del\<close> of
  \<open>apply_edit_bones\<close> is the only removal.
\<close>

theorem edit_bones_entry_removed_when_write_attempted:
  assumes "object_at (host w) obj = Some ob" and "armature_data ob = Some d"
    and "edit_bones_map w (mixer_uuid d) = Some v"
  shows "(edit_bones_map (snd (apply_edit_bones api env obj w)) (mixer_uuid d) = None
            \<longleftrightarrow> (\<exists>n. len v = Some n \<and> 0 < n \<and> fst (before_write api env obj ob w) = Return ()))
     \<and> (\<forall>k. k \<noteq> mixer_uuid d \<longrightarrow>
            edit_bones_map (snd (apply_edit_bones api env obj w)) k = edit_bones_map w k)
     \<and> (\<forall>env' d0 self k. edit_bones_map w k \<noteq> None \<longrightarrow>
            edit_bones_map (snd (snd (ArmatureProxy_save env' d0 (self, w)))) k \<noteq> None)"
proof (cases "\<exists>n. len v = Some n \<and> 0 < n \<and> fst (before_write api env obj ob w) = Return ()")
  case True
  then obtain n where "len v = Some n" "0 < n" "fst (before_write api env obj ob w) = Return ()"
    by blast
  from apply_edit_bones_write_reached [OF assms this] True save_keeps_entries [of "(_, w)"]
  show ?thesis by simp
next
  case False
  from apply_edit_bones_write_not_reached [OF assms False] False assms(3) save_keeps_entries [of "(_, w)"]
  show ?thesis by simp
qed

theorem edit_bones_entry_removed_when_write_attempted_witness:
  "object_at (host (scene_world [''uuid-D'' \<mapsto> Seq [Str ''b1'']])) 1 = Some (scene_objects ! 1)
   \<and> armature_data (scene_objects ! 1) = Some armature_D
   \<and> edit_bones_map (scene_world [''uuid-D'' \<mapsto> Seq [Str ''b1'']]) (mixer_uuid armature_D) = Some (Seq [Str ''b1''])
   \<and> edit_bones_map (snd (apply_edit_bones simple_host raising_env 1 (scene_world [''uuid-D'' \<mapsto> Seq [Str ''b1'']])))
        (mixer_uuid armature_D) = None
   \<and> edit_bones_map (snd (apply_edit_bones refusing_host spec_env 1 (scene_world [''uuid-D'' \<mapsto> Seq [Str ''b1'']])))
        (mixer_uuid armature_D) \<noteq> None"
  using edit_bones_entry_removed_when_write_attempted
    [of "scene_world [''uuid-D'' \<mapsto> Seq [Str ''b1'']]" 1 "scene_objects ! 1" armature_D "Seq [Str ''b1'']"
        simple_host raising_env]
    edit_bones_entry_removed_when_write_attempted
    [of "scene_world [''uuid-D'' \<mapsto> Seq [Str ''b1'']]" 1 "scene_objects ! 1" armature_D "Seq [Str ''b1'']"
        refusing_host spec_env]
  by (simp add: before_write_def host_ops armature_data_def scene_defs spec_env_defs simple_host_defs)

text \<open>
  C3 as stated fails: here \<open>write_attribute\<close> raises, so nothing is committed (the
  document is the one at entry), and the entry is gone all the same.
\<close>

theorem entry_removed_after_failed_write_counterexample:
  "edit_bones_map (scene_world [''uuid-D'' \<mapsto> Seq [Str ''b1'']]) ''uuid-D'' = Some (Seq [Str ''b1''])
   \<and> fst (write_attribute raising_env armature_D ''edit_bones'' (Seq [Str ''b1''])
        (scene\<lparr>objects := [(scene_objects ! 0)\<lparr>mode := ''OBJECT''\<rparr>, (scene_objects ! 1)\<lparr>mode := ''EDIT''\<rparr>,
                             scene_objects ! 2],
                active := Some 1\<rparr>))
       = Raise (CollaboratorError ''write failed'')
   \<and> apply_edit_bones simple_host raising_env 1 (scene_world [''uuid-D'' \<mapsto> Seq [Str ''b1'']])
       = (Return (),
          \<lparr>host = scene\<lparr>objects := [(scene_objects ! 0)\<lparr>mode := ''OBJECT''\<rparr>, (scene_objects ! 1)\<lparr>mode := ''OBJECT''\<rparr>,
                                   scene_objects ! 2],
                        active := Some 1\<rparr>,
            edit_bones_map = Map.empty,
            log_records = [],
            writes = [(armature_D, ''edit_bones'', Seq [Str ''b1''])]\<rparr>)"
  by (simp add: apply_edit_bones_def Let_def armature_data_def dict_get_def try_write_attribute_def dict_del_def
        host_ops scene_defs spec_env_defs simple_host_defs)


text \<open>
  On the simple host, the commit path of \<open>apply_edit_bones\<close> for any collaborators.
\<close>

lemma apply_edit_bones_commit:
  assumes "object_at (host w) obj = Some ob" and "armature_data ob = Some d"
    and "edit_bones_map w (mixer_uuid d) = Some v" and "len v = Some n" and "0 < n"
    and "resolve env (obj_mixer_uuid ob) obj (host w) = (Return (), x1)"
  shows "fst (apply_edit_bones simple_host env obj w) = Return ()"
    and "log_records (snd (apply_edit_bones simple_host env obj w)) = log_records w"
    and "writes (snd (apply_edit_bones simple_host env obj w)) = writes w @ [(d, ''edit_bones'', v)]"
    and "active (host (snd (apply_edit_bones simple_host env obj w))) = Some obj"
    and "context_mode simple_host (host (snd (apply_edit_bones simple_host env obj w))) = ''OBJECT''"
proof -
  from assms(4) have nn: "v \<noteq> NoneV" by (cases v) auto
  note defs = apply_edit_bones_def dict_get_def try_write_attribute_def dict_del_def host_ops
    simple_host_defs
  from assms nn show "fst (apply_edit_bones simple_host env obj w) = Return ()"
    by (auto simp: defs split: prod.splits outcome.splits option.splits if_splits)
  from assms nn show "log_records (snd (apply_edit_bones simple_host env obj w)) = log_records w"
    by (auto simp: defs split: prod.splits outcome.splits option.splits if_splits)
  from assms nn show "writes (snd (apply_edit_bones simple_host env obj w)) = writes w @ [(d, ''edit_bones'', v)]"
    by (auto simp: defs split: prod.splits outcome.splits option.splits if_splits)
  from assms nn show "active (host (snd (apply_edit_bones simple_host env obj w))) = Some obj"
    by (auto simp: defs split: prod.splits outcome.splits option.splits if_splits)
  from assms nn show "context_mode simple_host (host (snd (apply_edit_bones simple_host env obj w))) = ''OBJECT''"
    by (auto simp: defs split: prod.splits outcome.splits option.splits if_splits)
qed

lemma apply_edit_bones_after_write:
  assumes "object_at (host w) obj = Some ob" and "armature_data ob = Some d"
    and "edit_bones_map w (mixer_uuid d) = Some v" and "len v = Some n" and "0 < n"
    and "before_write api env obj ob w = (Return (), w1)"
  shows "fst (apply_edit_bones api env obj w)
           = fst (mode_set api None ''OBJECT''
                    ((host w1)\<lparr>ext := snd (write_attribute env d ''edit_bones'' v (host w1))\<rparr>))"
    and "host (snd (apply_edit_bones api env obj w))
           = snd (mode_set api None ''OBJECT''
                    ((host w1)\<lparr>ext := snd (write_attribute env d ''edit_bones'' v (host w1))\<rparr>))"
    and "log_records (snd (apply_edit_bones api env obj w)) = log_records w"
    and "writes (snd (apply_edit_bones api env obj w)) = writes w @ [(d, ''edit_bones'', v)]"
proof -
  from before_write_frame [OF assms(6)] assms(3)
  have f: "edit_bones_map w1 (mixer_uuid d) = Some v" "log_records w1 = log_records w"
    "writes w1 = writes w" by simp_all
  note r = apply_edit_bones_reaches_write [OF assms(1-5), of api env]
  from r assms(6) f show "fst (apply_edit_bones api env obj w)
           = fst (mode_set api None ''OBJECT''
                    ((host w1)\<lparr>ext := snd (write_attribute env d ''edit_bones'' v (host w1))\<rparr>))"
    by (auto simp: seq_def try_write_attribute_def dict_del_def on_host_def
             split: prod.splits outcome.splits)
  from r assms(6) f show "host (snd (apply_edit_bones api env obj w))
           = snd (mode_set api None ''OBJECT''
                    ((host w1)\<lparr>ext := snd (write_attribute env d ''edit_bones'' v (host w1))\<rparr>))"
    by (auto simp: seq_def try_write_attribute_def dict_del_def on_host_def
             split: prod.splits outcome.splits)
  from r assms(6) f show "log_records (snd (apply_edit_bones api env obj w)) = log_records w"
    by (auto simp: seq_def try_write_attribute_def dict_del_def on_host_def
             split: prod.splits outcome.splits)
  from r assms(6) f show "writes (snd (apply_edit_bones api env obj w)) = writes w @ [(d, ''edit_bones'', v)]"
    by (auto simp: seq_def try_write_attribute_def dict_del_def on_host_def
             split: prod.splits outcome.splits)
qed

text \<open>
  C4, as the code has it. On the commit path, whatever \<open>write_attribute\<close> does and in
  particular when it raises:
  \<^item> on the simple host, \<open>apply_edit_bones\<close> returns normally (the error is caught and not
    propagated), emits no log record (\<^verbatim>\<open>except Exception: pass\<close>), has made exactly one
    call of \<open>write_attribute\<close>, and ends with the object active and in \<^verbatim>\<open>OBJECT\<close> mode;
  \<^item> on any host, once the \<^verbatim>\<open>try\<close> is reached, the outcome and the final host are those
    of the closing \<^verbatim>\<open>mode_set(mode="OBJECT")\<close>, run in the state the write left: what
    the write raised is not propagated, and nothing is logged.
\<close>

theorem write_failure_suppressed_silently:
  assumes "object_at (host w) obj = Some ob" and "armature_data ob = Some d"
    and "edit_bones_map w (mixer_uuid d) = Some v" and "len v = Some n" and "0 < n"
    and "resolve env (obj_mixer_uuid ob) obj (host w) = (Return (), x1)"
  shows "fst (apply_edit_bones simple_host env obj w) = Return ()
     \<and> log_records (snd (apply_edit_bones simple_host env obj w)) = log_records w
     \<and> writes (snd (apply_edit_bones simple_host env obj w)) = writes w @ [(d, ''edit_bones'', v)]
     \<and> active (host (snd (apply_edit_bones simple_host env obj w))) = Some obj
     \<and> context_mode simple_host (host (snd (apply_edit_bones simple_host env obj w))) = ''OBJECT''
     \<and> (\<forall>api w1. before_write api env obj ob w = (Return (), w1) \<longrightarrow>
           fst (apply_edit_bones api env obj w)
             = fst (mode_set api None ''OBJECT''
                      ((host w1)\<lparr>ext := snd (write_attribute env d ''edit_bones'' v (host w1))\<rparr>))
         \<and> host (snd (apply_edit_bones api env obj w))
             = snd (mode_set api None ''OBJECT''
                      ((host w1)\<lparr>ext := snd (write_attribute env d ''edit_bones'' v (host w1))\<rparr>))
         \<and> log_records (snd (apply_edit_bones api env obj w)) = log_records w
         \<and> writes (snd (apply_edit_bones api env obj w)) = writes w @ [(d, ''edit_bones'', v)])"
  using apply_edit_bones_commit [OF assms] apply_edit_bones_after_write [OF assms(1-5)]
  by simp

theorem write_failure_suppressed_silently_witness:
  "object_at (host (scene_world [''uuid-D'' \<mapsto> Seq [Str ''b1'', Str ''b2'']])) 1 = Some (scene_objects ! 1)
   \<and> armature_data (scene_objects ! 1) = Some armature_D
   \<and> edit_bones_map (scene_world [''uuid-D'' \<mapsto> Seq [Str ''b1'', Str ''b2'']]) (mixer_uuid armature_D)
       = Some (Seq [Str ''b1'', Str ''b2''])
   \<and> len (Seq [Str ''b1'', Str ''b2'']) = Some 2 \<and> (0::nat) < 2
   \<and> resolve raising_env (obj_mixer_uuid (scene_objects ! 1)) 1
        (host (scene_world [''uuid-D'' \<mapsto> Seq [Str ''b1'', Str ''b2'']])) = (Return (), scene_document)
   \<and> fst (apply_edit_bones simple_host raising_env 1 (scene_world [''uuid-D'' \<mapsto> Seq [Str ''b1'', Str ''b2'']])) = Return ()
   \<and> log_records (snd (apply_edit_bones simple_host raising_env 1 (scene_world [''uuid-D'' \<mapsto> Seq [Str ''b1'', Str ''b2'']]))) = []
   \<and> context_mode simple_host
        (host (snd (apply_edit_bones simple_host raising_env 1 (scene_world [''uuid-D'' \<mapsto> Seq [Str ''b1'', Str ''b2'']]))))
       = ''OBJECT''"
  using write_failure_suppressed_silently
    [of "scene_world [''uuid-D'' \<mapsto> Seq [Str ''b1'', Str ''b2'']]" 1 "scene_objects ! 1" armature_D
        "Seq [Str ''b1'', Str ''b2'']" 2 raising_env scene_document]
  by (simp add: object_at_def armature_data_def scene_world_def scene_def scene_objects_def armature_D_def
        raising_env_def spec_env_def)

text \<open>
  C4 as stated fails: \<open>write_attribute\<close> raises, the call returns normally, and the log
  is as empty as at entry.
\<close>

theorem write_failure_not_logged_counterexample:
  "fst (write_attribute raising_env armature_D ''edit_bones'' (Seq [Str ''b1'', Str ''b2''])
        (scene\<lparr>objects := [(scene_objects ! 0)\<lparr>mode := ''OBJECT''\<rparr>, (scene_objects ! 1)\<lparr>mode := ''EDIT''\<rparr>,
                             scene_objects ! 2],
                active := Some 1\<rparr>))
       = Raise (CollaboratorError ''write failed'')
   \<and> writes (snd (apply_edit_bones simple_host raising_env 1 (scene_world [''uuid-D'' \<mapsto> Seq [Str ''b1'', Str ''b2'']])))
       = [(armature_D, ''edit_bones'', Seq [Str ''b1'', Str ''b2''])]
   \<and> fst (apply_edit_bones simple_host raising_env 1 (scene_world [''uuid-D'' \<mapsto> Seq [Str ''b1'', Str ''b2'']])) = Return ()
   \<and> log_records (snd (apply_edit_bones simple_host raising_env 1 (scene_world [''uuid-D'' \<mapsto> Seq [Str ''b1'', Str ''b2'']]))) = []"
  by (simp add: apply_edit_bones_def Let_def armature_data_def dict_get_def try_write_attribute_def dict_del_def
        host_ops scene_defs spec_env_defs simple_host_defs)


subsection \<open>The mode bracket of \<^verbatim>\<open>load\<close>, \<^verbatim>\<open>_diff\<close> and \<^verbatim>\<open>apply\<close>\<close>





text \<open>
  C5 at an input where it fails. The armature \<open>armature_D\<close> has the owner \<open>O\<close>, and no
  window of the host has a \<^verbatim>\<open>VIEW_3D\<close> area: \<open>override_context\<close> returns \<open>None\<close>, and
  \<open>load\<close> raises \<^verbatim>\<open>TypeError\<close> on \<^verbatim>\<open>ctx["active_object"] = obj\<close> before any host
  operation and before the base class is called, on every host and for all
  collaborators: nothing is captured.
\<close>

theorem load_raises_without_view_3d:
  "find_armature_parent_object (scene\<lparr>windows := [[''TEXT_EDITOR'']]\<rparr>) armature_D = Some 1
   \<and> override_context api (scene\<lparr>windows := [[''TEXT_EDITOR'']]\<rparr>) = None
   \<and> ArmatureProxy_load api env armature_D (empty_proxy, scene\<lparr>windows := [[''TEXT_EDITOR'']]\<rparr>)
       = (Raise TypeError, (empty_proxy, scene\<lparr>windows := [[''TEXT_EDITOR'']]\<rparr>))"
  by (simp add: ArmatureProxy_load_def override_context_def find_armature_parent_object_def scene_defs)

subsection \<open>\<^verbatim>\<open>apply\<close>, twice\<close>

text \<open>On the simple host the bracket of \<open>apply\<close> gives the host back when the delegated method returns.\<close>

lemma first_owner_bounds:
  "first_owner i obs d = Some j \<Longrightarrow> i \<le> j \<and> j < i + length obs"
  by (induction obs arbitrary: i) (force split: if_splits)+

lemma find_owner_valid:
  "find_armature_parent_object h d = Some j \<Longrightarrow> j < length (objects h)"
  using first_owner_bounds [of 0 "objects h" d j] by (simp add: find_armature_parent_object_def)

lemma apply_bracket:
  assumes "active h = Some a" and "a < length (objects h)"
    and "find_armature_parent_object h d = Some j"
  shows "ArmatureProxy_apply simple_host env d parent (StrKey k) delta tb (self, h) =
     (case base_apply env d parent k delta tb self
             (h\<lparr>active := Some j, objects := (objects h)[j := (objects h ! j)\<lparr>mode := ''EDIT''\<rparr>]\<rparr>) of
        (Return r, self', x') \<Rightarrow> (Return r, (self', h\<lparr>ext := x'\<rparr>))
      | (Raise e, self', x') \<Rightarrow>
          (Raise e, (self', h\<lparr>active := Some j,
                              objects := (objects h)[j := (objects h ! j)\<lparr>mode := ''EDIT''\<rparr>],
                              ext := x'\<rparr>)))"
proof -
  from assms(3) have j: "j < length (objects h)" by (rule find_owner_valid)
  show ?thesis
    using assms(1,2,3) j
    by (cases "a = j")
       (auto simp: ArmatureProxy_apply_def Let_def in_host_def in_base_def host_ops simple_host_defs
                   list_update_overwrite list_update_swap
             split: prod.splits outcome.splits)
qed

lemma dict_set_idem: "dict_set k v (dict_set k v kvs) = dict_set k v kvs"
  by (induction kvs) auto

lemma dict_pop_idem: "dict_pop k (dict_pop k kvs) = dict_pop k kvs"
  by (induction kvs) auto

lemma apply_delta_idem: "apply_delta dl (apply_delta dl kvs) = apply_delta dl kvs"
  by (cases dl) (simp_all add: dict_set_idem dict_pop_idem)

lemma spec_apply_twice:
  assumes "spec_apply d parent k dl tb self h = (r, self', x')"
  shows "r = Return self'"
    and "spec_apply d parent k dl tb self' (h\<lparr>ext := x'\<rparr>) = (Return self', self', x')"
  using assms by (auto simp: spec_apply_def Let_def apply_delta_idem)

lemma spec_apply_scene_independent:
  "spec_apply d parent k dl tb self (h\<lparr>active := a, objects := obs\<rparr>) = spec_apply d parent k dl tb self h"
  by (simp add: spec_apply_def)

text \<open>
  C8, on the generic apply algorithm as the spec describes it and on the simple host.
  For every state, key, delta and write-through flag, a second \<open>apply\<close> of the same delta
  returns what the first returned and leaves the state the first left: proxy, document,
  modes and selection.
\<close>

theorem apply_twice_is_apply_once:
  "ArmatureProxy_apply simple_host spec_env d parent ky dl tb
       (snd (ArmatureProxy_apply simple_host spec_env d parent ky dl tb s))
     = ArmatureProxy_apply simple_host spec_env d parent ky dl tb s"
proof (cases ky)
  case (IntKey n)
  then show ?thesis by (simp add: ArmatureProxy_apply_def)
next
  case (StrKey k)
  obtain self h where s: "s = (self, h)" by (cases s)
  show ?thesis
  proof (cases "active h")
    case None
    with StrKey s show ?thesis
      by (simp add: ArmatureProxy_apply_def Let_def in_host_def host_ops)
  next
    case (Some a)
    show ?thesis
    proof (cases "a < length (objects h)")
      case False
      with Some StrKey s show ?thesis
        by (simp add: ArmatureProxy_apply_def Let_def in_host_def host_ops)
    next
      case True
      show ?thesis
      proof (cases "find_armature_parent_object h d")
        case None
        with True Some StrKey s show ?thesis
          by (simp add: ArmatureProxy_apply_def Let_def in_host_def host_ops simple_host_defs
                find_armature_parent_object_def)
      next
        case (Some j)
        obtain r self' x' where sa: "spec_apply d parent k dl tb self h = (r, self', x')"
          by (cases "spec_apply d parent k dl tb self h")
        note tw = spec_apply_twice [OF sa]
        have b: "base_apply spec_env = spec_apply" by (simp add: spec_env_def)
        have first: "ArmatureProxy_apply simple_host spec_env d parent ky dl tb s
                       = (Return self', (self', h\<lparr>ext := x'\<rparr>))"
          using apply_bracket [OF \<open>active h = Some a\<close> True Some, of spec_env parent k dl tb self]
            sa tw(1) StrKey s
          by (simp add: b spec_apply_scene_independent)
        have "active (h\<lparr>ext := x'\<rparr>) = Some a" "a < length (objects (h\<lparr>ext := x'\<rparr>))"
          "find_armature_parent_object (h\<lparr>ext := x'\<rparr>) d = Some j"
          using \<open>active h = Some a\<close> True Some by (simp_all add: find_armature_parent_object_def)
        from apply_bracket [OF this, of spec_env parent k dl tb self'] tw(2)
        have "ArmatureProxy_apply simple_host spec_env d parent ky dl tb (self', h\<lparr>ext := x'\<rparr>)
                = (Return self', (self', h\<lparr>ext := x'\<rparr>))"
          using StrKey by (simp add: b spec_apply_scene_independent)
        with first show ?thesis by simp
      qed
    qed
  qed
qed

theorem apply_twice_is_apply_once_witness:
  "ArmatureProxy_apply simple_host spec_env armature_D ''armatures'' (StrKey ''name'')
       (DeltaUpdate ''name'' (Str ''rig2'')) True
     (snd (ArmatureProxy_apply simple_host spec_env armature_D ''armatures'' (StrKey ''name'')
             (DeltaUpdate ''name'' (Str ''rig2'')) True (scene_proxy, scene)))
   = ArmatureProxy_apply simple_host spec_env armature_D ''armatures'' (StrKey ''name'')
       (DeltaUpdate ''name'' (Str ''rig2'')) True (scene_proxy, scene)"
  using apply_twice_is_apply_once
    [of armature_D "''armatures''" "StrKey ''name''" "DeltaUpdate ''name'' (Str ''rig2'')" True "(scene_proxy, scene)"]
  by simp

end
